theory Spec2Isabelle
  imports Main
begin

section \<open>Documents and the XPath queries of the spider\<close>

text \<open>
  The spider reads its documents through scrapy selectors. A parsed document is a tree of
  elements and text nodes; the parsers that turn markup into such a tree belong to lxml
  and are taken as parameters below (\<open>lib\<close>). Every XPath expression that occurs in
  \<^verbatim>\<open>pos_spider.py\<close> is evaluated here over the tree, in document order.
\<close>

datatype node =
    Element (tag: string) (attrs: "(string \<times> string) list") (children: "node list")
  | Text string

type_synonym ancestor = "string \<times> (string \<times> string) list"

text \<open>
  \<open>walk anc n\<close> lists the nodes of \<open>n\<close> in document order (pre-order), each with the
  chain of its ancestor elements, the parent first and the root last.
\<close>

fun walk :: "ancestor list \<Rightarrow> node \<Rightarrow> (ancestor list \<times> node) list" where
  "walk anc (Text t) = [(anc, Text t)]"
| "walk anc (Element n ats cs) =
     (anc, Element n ats cs) # concat (map (walk ((n, ats) # anc)) cs)"

text \<open>
  A path \<open>p1/.../pn\<close> of child steps below a leading \<open>//\<close>: the parent chain of the node
  starts with \<open>pn, ..., p1\<close>. With a leading \<open>.//\<close> (\<open>rel\<close>) the element \<open>p1\<close> is a proper
  descendant of the selector's root, so at least one more ancestor follows.
\<close>

definition on_path :: "string list \<Rightarrow> bool \<Rightarrow> ancestor list \<Rightarrow> bool" where
  "on_path p rel anc =
     (take (length p) (map fst anc) = rev p \<and> (if rel then length p < length anc else True))"

definition text_of :: "node \<Rightarrow> string option" where
  "text_of n = (case n of Text t \<Rightarrow> Some t | Element _ _ _ \<Rightarrow> None)"

text \<open>\<^verbatim>\<open>xpath('.//p1/.../pn/text()').extract()\<close> (\<open>rel\<close>) and \<^verbatim>\<open>xpath('//p1/.../pn/text()').extract()\<close>.\<close>

definition xpath_text :: "string list \<Rightarrow> bool \<Rightarrow> node \<Rightarrow> string list" where
  "xpath_text p rel root =
     List.map_filter (\<lambda>(anc, n). if on_path p rel anc then text_of n else None) (walk [] root)"

text \<open>\<^verbatim>\<open>xpath('.//p1/.../pn/e')\<close>: the elements named \<open>e\<close> at the end of the path.\<close>

definition xpath_elements :: "string list \<Rightarrow> string \<Rightarrow> node \<Rightarrow> node list" where
  "xpath_elements p e root =
     List.map_filter
       (\<lambda>(anc, n). case n of
            Element m _ _ \<Rightarrow> if m = e \<and> on_path p True anc then Some n else None
          | Text _ \<Rightarrow> None)
       (walk [] root)"

text \<open>
  \<^verbatim>\<open>xpath('.//e//text()').extract()\<close>: the text nodes with an ancestor named \<open>e\<close> that is
  not the root of the selector.
\<close>

definition xpath_text_below :: "string \<Rightarrow> node \<Rightarrow> string list" where
  "xpath_text_below e root =
     List.map_filter
       (\<lambda>(anc, n). if e \<in> set (butlast (map fst anc)) then text_of n else None)
       (walk [] root)"

text \<open>\<^verbatim>\<open>xpath("//div[@class='conference_date']/text()").extract()\<close>.\<close>

definition xpath_conference_date :: "node \<Rightarrow> string list" where
  "xpath_conference_date root =
     List.map_filter
       (\<lambda>(anc, n). case anc of
            (m, ats) # _ \<Rightarrow>
              if m = ''div'' \<and> map_of ats ''class'' = Some ''conference_date''
              then text_of n else None
          | [] \<Rightarrow> None)
       (walk [] root)"

text \<open>
  XPath's \<open>contains(s, p)\<close> on strings, and \<open>contains(text(), p)\<close> on an element: the node
  set \<open>text()\<close> of the child text nodes is converted to the string of its first node, the
  empty string when the element has no child text node.
\<close>

fun starts_with :: "string \<Rightarrow> string \<Rightarrow> bool" where
  "starts_with s [] = True"
| "starts_with [] (p # ps) = False"
| "starts_with (c # cs) (p # ps) = (c = p \<and> starts_with cs ps)"

fun contains :: "string \<Rightarrow> string \<Rightarrow> bool" where
  "contains [] p = (p = [])"
| "contains (c # cs) p = (starts_with (c # cs) p \<or> contains cs p)"

definition first_text :: "node list \<Rightarrow> string" where
  "first_text cs = (case List.map_filter text_of cs of [] \<Rightarrow> [] | t # _ \<Rightarrow> t)"

definition text_contains_pdf :: "node \<Rightarrow> bool" where
  "text_contains_pdf n = contains (first_text (children n)) ''pdf''"

text \<open>
  The text content of a node, all the text below it in document order. It is not what
  the spider tests, but it is the other reading of "the text of an anchor".
\<close>

fun text_content :: "node \<Rightarrow> string" where
  "text_content (Text t) = t"
| "text_content (Element n ats cs) = concat (map text_content cs)"

text \<open>The \<open>a\<close> elements of a document, in document order: \<^verbatim>\<open>//a\<close>.\<close>

definition anchors :: "node \<Rightarrow> node list" where
  "anchors root =
     List.map_filter
       (\<lambda>(anc, n). case n of
            Element m _ _ \<Rightarrow> if m = ''a'' then Some n else None
          | Text _ \<Rightarrow> None)
       (walk [] root)"

definition href :: "node \<Rightarrow> string list" where
  "href n = (case map_of (attrs n) ''href'' of None \<Rightarrow> [] | Some h \<Rightarrow> [h])"

text \<open>\<^verbatim>\<open>xpath("//a[contains(text(),'pdf')]/@href").extract()\<close>.\<close>

definition xpath_pdf_href :: "node \<Rightarrow> string list" where
  "xpath_pdf_href root = concat (map href (filter text_contains_pdf (anchors root)))"

text \<open>\<^verbatim>\<open>xpath("//a[not(contains(text(),'pdf'))]/@href").extract()\<close>.\<close>

definition xpath_not_pdf_href :: "node \<Rightarrow> string list" where
  "xpath_not_pdf_href root =
     concat (map href (filter (\<lambda>n. \<not> text_contains_pdf n) (anchors root)))"

text \<open>\<^verbatim>\<open>.extract_first()\<close>: the first result, \<open>None\<close> when there is none.\<close>

definition extract_first :: "'a list \<Rightarrow> 'a option" where
  "extract_first xs = (case xs of [] \<Rightarrow> None | x # _ \<Rightarrow> Some x)"

section \<open>Python values and errors\<close>

text \<open>
  The exceptions the spider can end with. \<open>PoSExtractionException\<close> carries the fixed
  part of its message; the page or the meta dictionary that Python formats into the
  message is left out. \<open>AttributeError\<close> carries the name of the attribute that the
  object does not have. \<open>LibraryError\<close> is an exception raised inside a library
  function.
\<close>

datatype error =
    PoSExtractionException string
  | AttributeError string
  | TypeError
  | IndexError
  | KeyError
  | ValueError
  | LibraryError string

text \<open>\<^verbatim>\<open>xs[i]\<close> on a list, for \<open>i \<ge> 0\<close>.\<close>

definition py_index :: "'a list \<Rightarrow> nat \<Rightarrow> error + 'a" where
  "py_index xs i = (if i < length xs then Inr (xs ! i) else Inl IndexError)"

text \<open>
  Splitting at every character that satisfies \<open>d\<close>, keeping empty pieces: what
  \<^verbatim>\<open>s.split('/')\<close> and \<^verbatim>\<open>re.split('[()]', s)\<close> do, the pattern matching one character.
\<close>

fun split_on :: "(char \<Rightarrow> bool) \<Rightarrow> string \<Rightarrow> string list" where
  "split_on d [] = [[]]"
| "split_on d (c # cs) =
     (if d c then [] # split_on d cs
      else (case split_on d cs of [] \<Rightarrow> [[c]] | p # ps \<Rightarrow> (c # p) # ps))"

definition is_paren :: "char \<Rightarrow> bool" where
  "is_paren c = (c = CHR ''('' \<or> c = CHR '')'')"

text \<open>\<^verbatim>\<open>re.split('[()]', s)\<close>; on \<open>None\<close> the call raises TypeError.\<close>

definition re_split_parens :: "string option \<Rightarrow> error + string list" where
  "re_split_parens s = (case s of None \<Rightarrow> Inl TypeError | Some x \<Rightarrow> Inr (split_on is_paren x))"

text \<open>\<^verbatim>\<open>s.split('/')\<close>; \<open>None\<close> has no attribute \<open>split\<close>.\<close>

definition split_slash :: "string option \<Rightarrow> error + string list" where
  "split_slash s =
     (case s of None \<Rightarrow> Inl (AttributeError ''split'') | Some x \<Rightarrow> Inr (split_on (\<lambda>c. c = CHR ''/'') x))"

text \<open>How \<^verbatim>\<open>'{0}{1}'.format(a, b)\<close> renders its second argument.\<close>

definition py_str :: "string option \<Rightarrow> string" where
  "py_str s = (case s of None \<Rightarrow> ''None'' | Some x \<Rightarrow> x)"

text \<open>Reading the attribute \<open>name\<close> of an object: \<open>None\<close> when the object has no such attribute.\<close>

definition read_attribute :: "string \<Rightarrow> 'a option \<Rightarrow> error + 'a" where
  "read_attribute name v = (case v of None \<Rightarrow> Inl (AttributeError name) | Some x \<Rightarrow> Inr x)"

section \<open>The library and the spider\<close>

text \<open>
  What the source calls and does not define. \<open>html_root\<close> and \<open>xml_root\<close> are the trees
  that \<^verbatim>\<open>Selector(text=..., type='html')\<close> and \<^verbatim>\<open>Selector(text=..., type='xml')\<close> build,
  \<open>remove_namespaces\<close> and \<open>extract_markup\<close> (\<^verbatim>\<open>extract()\<close> on a node, its
  serialisation) are the selector's methods, \<open>urljoin\<close> is Python's, \<open>py_int\<close> is
  \<^verbatim>\<open>int\<close> on a string. \<open>request_url\<close> is what scrapy's \<^verbatim>\<open>Request\<close> makes of the URL it
  is given: the escaped URL (a space becomes \<open>%20\<close>), or the ValueError for a URL
  without scheme. \<open>get_licenses\<close> and
  \<open>create_valid_date\<close> are helpers of the repository (\<^verbatim>\<open>hepcrawl.utils\<close>,
  \<^verbatim>\<open>hepcrawl.dateutils\<close>) whose code is not part of the file verified here. All of them are
  parameters: the theorems hold for every choice.
\<close>

type_synonym pydict = "(string \<times> string) list"

record lib =
  html_root :: "string \<Rightarrow> node"
  xml_root :: "string \<Rightarrow> node"
  remove_namespaces :: "node \<Rightarrow> node"
  extract_markup :: "node \<Rightarrow> string"
  urljoin :: "string \<Rightarrow> string \<Rightarrow> string"
  py_int :: "string \<Rightarrow> error + int"
  request_url :: "string \<Rightarrow> error + string"
  get_licenses :: "string option \<Rightarrow> error + pydict list"
  create_valid_date :: "string option \<Rightarrow> error + string"

text \<open>
  The spider object. \<^verbatim>\<open>__init__\<close> assigns \<^verbatim>\<open>source_file\<close>, \<^verbatim>\<open>BASE_CONFERENCE_PAPER_URL\<close>
  and \<^verbatim>\<open>BASE_PROCEEDINGS_URL\<close>. The callbacks read \<^verbatim>\<open>self.base_conference_paper_url\<close> and
  \<^verbatim>\<open>self.base_proceedings_url\<close>, which \<^verbatim>\<open>__init__\<close> does not assign; both names are
  parameters of \<^verbatim>\<open>__init__\<close>, so they cannot arrive through \<^verbatim>\<open>**kwargs\<close> either. These two
  attributes are optional fields: \<open>None\<close> on the spider that the constructor builds, a
  value on a spider to which they were assigned afterwards. The upper-case attributes are
  read only by \<^verbatim>\<open>_get_proceedings_url\<close>, a method that nothing calls.
\<close>

record spider =
  source_file :: "string option"
  BASE_CONFERENCE_PAPER_URL :: string
  BASE_PROCEEDINGS_URL :: string
  base_conference_paper_url :: "string option"
  base_proceedings_url :: "string option"

definition DEFAULT_BASE_URL :: string where
  "DEFAULT_BASE_URL = ''https://pos.sissa.it''"

definition DEFAULT_BASE_CONFERENCE_PAPER_URL :: string where
  "DEFAULT_BASE_CONFERENCE_PAPER_URL = DEFAULT_BASE_URL @ ''/contribution?id=''"

definition DEFAULT_BASE_PROCEEDINGS_URL :: string where
  "DEFAULT_BASE_PROCEEDINGS_URL = DEFAULT_BASE_URL @ ''/cgi-bin/reader/conf.cgi?confid=''"

text \<open>\<^verbatim>\<open>POSSpider.__init__(source_file, base_conference_paper_url, base_proceedings_url)\<close>.\<close>

definition POSSpider_init :: "string option \<Rightarrow> string \<Rightarrow> string \<Rightarrow> spider" where
  "POSSpider_init file paper_url proceedings_url =
     \<lparr>source_file = file,
      BASE_CONFERENCE_PAPER_URL = paper_url,
      BASE_PROCEEDINGS_URL = proceedings_url,
      base_conference_paper_url = None,
      base_proceedings_url = None\<rparr>"

text \<open>Modelled from the spec: \<^verbatim>\<open>get_first\<close> of \<^verbatim>\<open>hepcrawl.utils\<close>, "first matching text node,
  default empty string": the first element of the list, the default when there is none.\<close>

definition get_first :: "'a list \<Rightarrow> 'a \<Rightarrow> 'a" where
  "get_first xs d = (case xs of [] \<Rightarrow> d | x # _ \<Rightarrow> x)"

section \<open>Items, requests and responses\<close>

record affiliation =
  aff_value :: string

text \<open>
  The dictionary \<^verbatim>\<open>auth_dict\<close> of one creator: a key that was never assigned is \<open>None\<close>.
  The dictionary is empty, and false in a Python condition, when no key is assigned.
\<close>

record author =
  raw_name :: "string option"
  affiliations :: "affiliation list option"

definition empty_auth_dict :: author where
  "empty_auth_dict = \<lparr>raw_name = None, affiliations = None\<rparr>"

definition dict_truthy :: "author \<Rightarrow> bool" where
  "dict_truthy d =
     (case raw_name d of
        Some _ \<Rightarrow> True
      | None \<Rightarrow> (case affiliations d of Some _ \<Rightarrow> True | None \<Rightarrow> False))"

record ext_system_number =
  institute :: string
  ext_value :: "string option"

record fft =
  path :: string

text \<open>Modelled from the spec: \<^verbatim>\<open>HEPLoader\<close>, \<^verbatim>\<open>HEPRecord\<close> and \<^verbatim>\<open>ParsedItem\<close> are not in the
  file verified here. The item is the record of the values that the spider hands to the
  loader, in the shape of the two output records of the spec (section 6): a field that
  was given no value, the value \<open>None\<close> or an empty list is absent (\<open>None\<close>, \<open>[]\<close>).\<close>

record HEPRecord =
  license :: "pydict list"
  date_published :: "string option"
  journal_year :: "int option"
  journal_title :: "string option"
  journal_volume :: "string option"
  journal_artid :: "string option"
  title :: "string list"
  subtitle :: "string option"
  source :: "string list"
  external_system_numbers :: "ext_system_number list"
  language :: "string option"
  authors :: "author list"
  collections :: "string list"
  urls :: "string list"
  fft_field :: "fft list"

definition empty_record :: HEPRecord where
  "empty_record =
     \<lparr>license = [], date_published = None, journal_year = None, journal_title = None,
      journal_volume = None, journal_artid = None, title = [], subtitle = None, source = [],
      external_system_numbers = [], language = None, authors = [], collections = [],
      urls = [], fft_field = []\<rparr>"

record ParsedItem =
  item_record :: HEPRecord
  record_format :: string

text \<open>
  The \<open>meta\<close> dictionary that travels with a request: the three keys the spider uses.
  \<open>pos_id\<close> is \<open>None\<close> while the key is not set and \<open>Some None\<close> when it is set to \<open>None\<close>.
\<close>

record meta_dict =
  xml_record :: "string option"
  html_record :: "string option"
  pos_id :: "string option option"

definition empty_meta :: meta_dict where
  "empty_meta = \<lparr>xml_record = None, html_record = None, pos_id = None\<rparr>"

text \<open>
  A request as scrapy's \<^verbatim>\<open>Request\<close> builds it from the arguments of the source: its URL
  is \<open>request_url\<close> of the URL given, and building it fails when that fails.
\<close>

datatype callback = Parse | ParseConferencePaper | ParseConferenceProceedings

record request =
  url :: string
  callback :: callback
  meta :: meta_dict

record response =
  response_url :: string
  body :: string
  response_meta :: meta_dict

text \<open>
  A callback is a generator: it yields items and requests one after the other and may
  end with an exception; what was yielded before the exception stays yielded.
\<close>

datatype yielded = Item ParsedItem | Req request

type_synonym generator = "yielded list \<times> error option"

section \<open>The methods of POSSpider\<close>

text \<open>
  \<^verbatim>\<open>Selector(text=t, type='xml')\<close> followed by \<^verbatim>\<open>remove_namespaces()\<close>. A selector cannot
  be built from \<open>None\<close> (ValueError).
\<close>

definition xml_selector_of :: "lib \<Rightarrow> string option \<Rightarrow> error + node" where
  "xml_selector_of L t =
     (case t of None \<Rightarrow> Inl ValueError | Some x \<Rightarrow> Inr (remove_namespaces L (xml_root L x)))"

text \<open>\<^verbatim>\<open>xpath('.//metadata/pex-dc/identifier/text()').extract_first()\<close>.\<close>

definition identifier_of :: "node \<Rightarrow> string option" where
  "identifier_of sel = extract_first (xpath_text [''metadata'', ''pex-dc'', ''identifier''] True sel)"

text \<open>
  \<^verbatim>\<open>get_conference_paper_page_request\<close>: the identifier is read, then the URL is
  formatted from \<^verbatim>\<open>self.base_conference_paper_url\<close> (AttributeError when the spider has no
  such attribute), then the record is serialised into \<open>meta\<close> and the request is built.
\<close>

definition get_conference_paper_page_request ::
  "lib \<Rightarrow> spider \<Rightarrow> node \<Rightarrow> meta_dict option \<Rightarrow> error + request" where
  "get_conference_paper_page_request L self xml_selector m =
     (let m0 = (case m of None \<Rightarrow> empty_meta | Some d \<Rightarrow> d);
          identifier = identifier_of xml_selector
      in case read_attribute ''base_conference_paper_url'' (base_conference_paper_url self) of
           Inl e \<Rightarrow> Inl e
         | Inr base \<Rightarrow>
             (let conference_paper_url = base @ py_str identifier;
                  m1 = m0\<lparr>xml_record := Some (extract_markup L xml_selector)\<rparr>
              in case request_url L conference_paper_url of
                   Inl e \<Rightarrow> Inl e
                 | Inr u \<Rightarrow> Inr \<lparr>url = u, callback = ParseConferencePaper, meta = m1\<rparr>))"

text \<open>
  \<^verbatim>\<open>parse\<close>: one paper-page request for every \<^verbatim>\<open>.//record\<close> of the source file, in
  order; an exception while a request is built ends the generator.
\<close>

fun parse_loop :: "lib \<Rightarrow> spider \<Rightarrow> node list \<Rightarrow> generator" where
  "parse_loop L self [] = ([], None)"
| "parse_loop L self (record_xml_selector # rest) =
     (case get_conference_paper_page_request L self record_xml_selector None of
        Inl e \<Rightarrow> ([], Some e)
      | Inr q \<Rightarrow> (Req q # fst (parse_loop L self rest), snd (parse_loop L self rest)))"

definition parse :: "lib \<Rightarrow> spider \<Rightarrow> response \<Rightarrow> generator" where
  "parse L self r =
     parse_loop L self
       (xpath_elements [] ''record'' (remove_namespaces L (xml_root L (body r))))"

definition get_conference_paper_pdf_url :: "lib \<Rightarrow> spider \<Rightarrow> string \<Rightarrow> error + string" where
  "get_conference_paper_pdf_url L self conference_paper_page_html =
     (case extract_first (xpath_pdf_href (html_root L conference_paper_page_html)) of
        None \<Rightarrow>
          Inl (PoSExtractionException ''Unable to get the conference paper pdf url from the html:'')
      | Some conference_paper_pdf_relative_url \<Rightarrow>
          if conference_paper_pdf_relative_url = []
          then Inl (PoSExtractionException
                      ''Unable to get the conference paper pdf url from the html:'')
          else (case read_attribute ''base_conference_paper_url''
                       (base_conference_paper_url self) of
                  Inl e \<Rightarrow> Inl e
                | Inr base \<Rightarrow> Inr (urljoin L base conference_paper_pdf_relative_url)))"

text \<open>
  \<^verbatim>\<open>_get_proceedings_page_url\<close>. Its first two statements compute the local variable
  \<^verbatim>\<open>proceedings_internal_id\<close>; the last one formats the URL from
  \<^verbatim>\<open>self.base_proceedings_url\<close>.
\<close>

definition proceedings_internal_id :: "lib \<Rightarrow> string \<Rightarrow> error + string" where
  "proceedings_internal_id L page_html =
     (let internal_url = extract_first (xpath_not_pdf_href (html_root L page_html)) in
      case split_slash internal_url of
        Inl e \<Rightarrow> Inl e
      | Inr parts \<Rightarrow> py_index parts 1)"

definition get_proceedings_page_url :: "lib \<Rightarrow> spider \<Rightarrow> string \<Rightarrow> error + string" where
  "get_proceedings_page_url L self page_html =
     (case proceedings_internal_id L page_html of
        Inl e \<Rightarrow> Inl e
      | Inr internal_id \<Rightarrow>
          (case read_attribute ''base_proceedings_url'' (base_proceedings_url self) of
             Inl e \<Rightarrow> Inl e
           | Inr base \<Rightarrow> Inr (base @ internal_id)))"

definition get_conference_proceedings_page_request ::
  "lib \<Rightarrow> spider \<Rightarrow> meta_dict \<Rightarrow> error + request" where
  "get_conference_proceedings_page_request L self m =
     (case html_record m of
        None \<Rightarrow> Inl (PoSExtractionException ''PoS conference paper page was empty, current meta:'')
      | Some page_html \<Rightarrow>
          if page_html = []
          then Inl (PoSExtractionException
                      ''PoS conference paper page was empty, current meta:'')
          else
            (case get_proceedings_page_url L self page_html of
               Inl e \<Rightarrow> Inl e
             | Inr proceedings_page_url \<Rightarrow>
                 (case xml_selector_of L (xml_record m) of
                    Inl e \<Rightarrow> Inl e
                  | Inr page_selector \<Rightarrow>
                      (case request_url L proceedings_page_url of
                         Inl e \<Rightarrow> Inl e
                       | Inr u \<Rightarrow>
                           Inr \<lparr>url = u,
                                callback = ParseConferenceProceedings,
                                meta = m\<lparr>pos_id := Some (identifier_of page_selector)\<rparr>\<rparr>))))"

definition set_fft :: "string \<Rightarrow> fft list" where
  "set_fft p = [\<lparr>path = p\<rparr>]"

definition get_language :: "node \<Rightarrow> string option" where
  "get_language selector =
     (let language = extract_first (xpath_text [''metadata'', ''pex-dc'', ''language''] True selector)
      in if language \<noteq> Some ''en'' then language else None)"

definition get_journal_title :: "string option \<Rightarrow> error + string" where
  "get_journal_title pos_ext_identifier =
     (case re_split_parens pos_ext_identifier of Inl e \<Rightarrow> Inl e | Inr ps \<Rightarrow> py_index ps 0)"

definition get_journal_volume :: "string option \<Rightarrow> error + string" where
  "get_journal_volume pos_ext_identifier =
     (case re_split_parens pos_ext_identifier of Inl e \<Rightarrow> Inl e | Inr ps \<Rightarrow> py_index ps 1)"

definition get_journal_artid :: "string option \<Rightarrow> error + string" where
  "get_journal_artid pos_ext_identifier =
     (case re_split_parens pos_ext_identifier of Inl e \<Rightarrow> Inl e | Inr ps \<Rightarrow> py_index ps 2)"

definition get_ext_systems_number :: "node \<Rightarrow> ext_system_number list" where
  "get_ext_systems_number selector =
     [\<lparr>institute = ''pos'',
       ext_value = extract_first (xpath_text [''identifier''] True selector)\<rparr>]"

definition get_date :: "lib \<Rightarrow> node \<Rightarrow> error + (string \<times> int)" where
  "get_date L selector =
     (let full_date = extract_first (xpath_text [''metadata'', ''pex-dc'', ''date''] True selector)
      in case create_valid_date L full_date of
           Inl e \<Rightarrow> Inl e
         | Inr date \<Rightarrow>
             (case py_int L (take 4 date) of
                Inl e \<Rightarrow> Inl e
              | Inr year \<Rightarrow> Inr (date, year)))"

text \<open>The inner loop of \<^verbatim>\<open>_get_authors\<close>: one step per affiliation text.\<close>

definition add_affiliation :: "author \<Rightarrow> string \<Rightarrow> author" where
  "add_affiliation auth_dict a =
     (case affiliations auth_dict of
        Some xs \<Rightarrow> auth_dict\<lparr>affiliations := Some (xs @ [\<lparr>aff_value = a\<rparr>])\<rparr>
      | None \<Rightarrow> auth_dict\<lparr>affiliations := Some [\<lparr>aff_value = a\<rparr>]\<rparr>)"

fun affiliations_loop :: "string list \<Rightarrow> author \<Rightarrow> author" where
  "affiliations_loop [] auth_dict = auth_dict"
| "affiliations_loop (a # rest) auth_dict = affiliations_loop rest (add_affiliation auth_dict a)"

text \<open>The body of the outer loop up to the test \<^verbatim>\<open>if auth_dict\<close>.\<close>

definition creator_auth_dict :: "lib \<Rightarrow> node \<Rightarrow> author" where
  "creator_auth_dict L creator =
     (let author = html_root L (extract_markup L creator);
          auth_dict = empty_auth_dict\<lparr>raw_name :=
                        Some (get_first (xpath_text_below ''name'' author) [])\<rparr>
      in affiliations_loop (xpath_text_below ''affiliation'' author) auth_dict)"

fun creators_loop :: "lib \<Rightarrow> node list \<Rightarrow> author list \<Rightarrow> author list" where
  "creators_loop L [] found = found"
| "creators_loop L (creator # rest) found =
     (let auth_dict = creator_auth_dict L creator
      in creators_loop L rest (if dict_truthy auth_dict then found @ [auth_dict] else found))"

definition get_authors :: "lib \<Rightarrow> node \<Rightarrow> author list" where
  "get_authors L selector =
     creators_loop L (xpath_elements [''metadata'', ''pex-dc''] ''creator'' selector) []"

definition get_proceedings_title :: "node \<Rightarrow> string option" where
  "get_proceedings_title selector = extract_first (xpath_text [''h1''] False selector)"

definition get_proceedings_date_place :: "node \<Rightarrow> string" where
  "get_proceedings_date_place selector = concat (xpath_conference_date selector)"

definition build_conference_paper_item ::
  "lib \<Rightarrow> spider \<Rightarrow> string option \<Rightarrow> string \<Rightarrow> string \<Rightarrow> error + ParsedItem" where
  "build_conference_paper_item L self xml_rec conference_paper_url conference_paper_pdf_url =
     (case xml_selector_of L xml_rec of
        Inl e \<Rightarrow> Inl e
      | Inr selector \<Rightarrow>
     (let license_text =
            extract_first (xpath_text [''metadata'', ''pex-dc'', ''rights''] True selector)
      in case get_licenses L license_text of
        Inl e \<Rightarrow> Inl e
      | Inr licenses \<Rightarrow>
     (case get_date L selector of
        Inl e \<Rightarrow> Inl e
      | Inr (date, year) \<Rightarrow>
     (let identifier = identifier_of selector
      in case get_journal_title identifier of
        Inl e \<Rightarrow> Inl e
      | Inr jtitle \<Rightarrow>
     (case get_journal_volume identifier of
        Inl e \<Rightarrow> Inl e
      | Inr jvolume \<Rightarrow>
     (case get_journal_artid identifier of
        Inl e \<Rightarrow> Inl e
      | Inr jartid \<Rightarrow>
          Inr \<lparr>item_record = empty_record
                 \<lparr>license := licenses,
                  date_published := Some date,
                  journal_year := Some year,
                  journal_title := Some jtitle,
                  journal_volume := Some jvolume,
                  journal_artid := Some jartid,
                  title := xpath_text [''metadata'', ''pex-dc'', ''title''] False selector,
                  source := xpath_text [''metadata'', ''pex-dc'', ''publisher''] False selector,
                  external_system_numbers := get_ext_systems_number selector,
                  language := get_language selector,
                  authors := get_authors L selector,
                  collections := [''conferencepaper''],
                  urls := [conference_paper_url],
                  fft_field := set_fft conference_paper_pdf_url\<rparr>,
               record_format = ''hepcrawl''\<rparr>))))))"

definition build_conference_proceedings_item ::
  "lib \<Rightarrow> spider \<Rightarrow> string \<Rightarrow> string option \<Rightarrow> error + ParsedItem" where
  "build_conference_proceedings_item L self proceedings_page_html pid =
     (let selector = remove_namespaces L (html_root L proceedings_page_html)
      in case get_journal_volume pid of
           Inl e \<Rightarrow> Inl e
         | Inr jvolume \<Rightarrow>
             Inr \<lparr>item_record = empty_record
                    \<lparr>collections := [''proceeding''],
                     title := (case get_proceedings_title selector of
                                 None \<Rightarrow> [] | Some t \<Rightarrow> [t]),
                     subtitle := Some (get_proceedings_date_place selector),
                     journal_title := Some ''PoS'',
                     journal_volume := Some jvolume\<rparr>,
                  record_format = ''hepcrawl''\<rparr>)"

text \<open>
  \<^verbatim>\<open>parse_conference_paper\<close>: nothing is yielded when the pdf link or the paper item
  fails; the paper item is yielded before the proceedings request is built, so an
  exception of \<^verbatim>\<open>get_conference_proceedings_page_request\<close> ends the generator after the
  item.
\<close>

definition parse_conference_paper :: "lib \<Rightarrow> spider \<Rightarrow> response \<Rightarrow> generator" where
  "parse_conference_paper L self r =
     (let xml_rec = xml_record (response_meta r);
          conference_paper_url = response_url r
      in case get_conference_paper_pdf_url L self (body r) of
           Inl e \<Rightarrow> ([], Some e)
         | Inr conference_paper_pdf_url \<Rightarrow>
             (case build_conference_paper_item L self xml_rec conference_paper_url
                     conference_paper_pdf_url of
                Inl e \<Rightarrow> ([], Some e)
              | Inr parsed_conference_paper \<Rightarrow>
                  (case get_conference_proceedings_page_request L self
                          ((response_meta r)\<lparr>html_record := Some (body r)\<rparr>) of
                     Inl e \<Rightarrow> ([Item parsed_conference_paper], Some e)
                   | Inr q \<Rightarrow> ([Item parsed_conference_paper, Req q], None))))"

definition parse_conference_proceedings :: "lib \<Rightarrow> spider \<Rightarrow> response \<Rightarrow> generator" where
  "parse_conference_proceedings L self r =
     (case pos_id (response_meta r) of
        None \<Rightarrow> ([], Some KeyError)
      | Some pid \<Rightarrow>
          (case build_conference_proceedings_item L self (body r) pid of
             Inl e \<Rightarrow> ([], Some e)
           | Inr parsed_conference_proceedings \<Rightarrow>
               ([Item parsed_conference_proceedings], None)))"

section \<open>The chain of one record\<close>

text \<open>
  Scrapy downloads every request that a callback yields and passes the response, with
  the request's \<open>meta\<close>, to the request's callback; items are handed on as they are
  yielded. \<open>fetch\<close> stands for the network: the body found at a URL (redirects are not
  modelled: the response carries the URL of its request). The chain of one record is the
  sequence of what happens, in the order of the yields; it starts in \<^verbatim>\<open>parse\<close> with the
  request for the paper page and ends there when building that request raises.
\<close>

datatype event = Download string | Scraped ParsedItem | Failed error

definition deliver :: "(string \<Rightarrow> string) \<Rightarrow> request \<Rightarrow> response" where
  "deliver fetch q = \<lparr>response_url = url q, body = fetch (url q), response_meta = meta q\<rparr>"

definition events_of :: "(request \<Rightarrow> event list) \<Rightarrow> generator \<Rightarrow> event list" where
  "events_of follow g =
     concat (map (\<lambda>y. case y of Item i \<Rightarrow> [Scraped i] | Req q \<Rightarrow> follow q) (fst g))
     @ (case snd g of None \<Rightarrow> [] | Some e \<Rightarrow> [Failed e])"

definition crawl_proceedings :: "lib \<Rightarrow> spider \<Rightarrow> (string \<Rightarrow> string) \<Rightarrow> request \<Rightarrow> event list" where
  "crawl_proceedings L self fetch q =
     Download (url q)
     # events_of (\<lambda>q'. [Download (url q')]) (parse_conference_proceedings L self (deliver fetch q))"

definition crawl_paper :: "lib \<Rightarrow> spider \<Rightarrow> (string \<Rightarrow> string) \<Rightarrow> request \<Rightarrow> event list" where
  "crawl_paper L self fetch q =
     Download (url q)
     # events_of (crawl_proceedings L self fetch) (parse_conference_paper L self (deliver fetch q))"

definition chain :: "lib \<Rightarrow> spider \<Rightarrow> (string \<Rightarrow> string) \<Rightarrow> node \<Rightarrow> event list" where
  "chain L self fetch record_xml_selector =
     (case get_conference_paper_page_request L self record_xml_selector None of
        Inl e \<Rightarrow> [Failed e]
      | Inr q \<Rightarrow> crawl_paper L self fetch q)"


definition scraped :: "event list \<Rightarrow> ParsedItem list" where
  "scraped evs = List.map_filter (\<lambda>e. case e of Scraped i \<Rightarrow> Some i | _ \<Rightarrow> None) evs"



section \<open>Sample documents\<close>

text \<open>
  Concrete inputs on which the theorems below are exercised: the markup of the spec's
  examples, the trees a parser gives for them, and a library that knows exactly these
  documents. \<open>sample_urljoin\<close> agrees with \<^verbatim>\<open>urljoin\<close> for the default base URL and a
  reference that starts with a slash; \<open>sample_request_url\<close> escapes spaces and refuses a
  URL without colon.

  Two spiders: \<open>constructed_spider\<close> is what the constructor builds with its default
  arguments; \<open>sample_spider\<close> is the same object after the two attributes that the
  callbacks read were assigned by hand.
\<close>

definition constructed_spider :: spider where
  "constructed_spider =
     POSSpider_init None DEFAULT_BASE_CONFERENCE_PAPER_URL DEFAULT_BASE_PROCEEDINGS_URL"

definition sample_spider :: spider where
  "sample_spider =
     constructed_spider
       \<lparr>base_conference_paper_url := Some DEFAULT_BASE_CONFERENCE_PAPER_URL,
        base_proceedings_url := Some DEFAULT_BASE_PROCEEDINGS_URL\<rparr>"

definition html_page :: "node list \<Rightarrow> node" where
  "html_page ns = Element ''html'' [] [Element ''body'' [] ns]"

definition pdf_anchor :: node where
  "pdf_anchor = Element ''a'' [(''href'', ''/999/pdf'')] [Text ''pdf'']"

definition details_anchor :: node where
  "details_anchor = Element ''a'' [(''href'', ''/contrib/001'')] [Text ''details'']"

definition paper_page :: string where
  "paper_page = ''<a href=/999/pdf>pdf</a><a href=/contrib/001>details</a>''"

definition paper_page_no_pdf :: string where
  "paper_page_no_pdf = ''<a href=/contrib/001>details</a>''"

definition paper_page_only_pdf :: string where
  "paper_page_only_pdf = ''<a href=/999/pdf>pdf</a>''"

definition proceedings_page :: string where
  "proceedings_page = ''<h1>Conference</h1><div class=conference_date>Pisa, 2016</div>''"

definition proceedings_tree :: node where
  "proceedings_tree =
     html_page [Element ''h1'' [] [Text ''Conference''],
                Element ''div'' [(''class'', ''conference_date'')] [Text ''Pisa, 2016'']]"

definition full_creator :: node where
  "full_creator =
     Element ''creator'' []
       [Element ''name'' [] [Text ''A. Author''], Element ''affiliation'' [] [Text ''CERN'']]"

definition empty_creator :: node where
  "empty_creator = Element ''creator'' [] []"

definition pex_record :: "node list \<Rightarrow> node" where
  "pex_record ns = Element ''record'' [] [Element ''metadata'' [] [Element ''pex-dc'' [] ns]]"

definition good_record :: node where
  "good_record =
     pex_record [Element ''identifier'' [] [Text ''JHEP01(2016)001''],
                 Element ''date'' [] [Text ''2016-03-04''],
                 Element ''language'' [] [Text ''fr''],
                 full_creator]"

definition record_without_parens :: node where
  "record_without_parens =
     pex_record [Element ''identifier'' [] [Text ''JHEP01''],
                 Element ''date'' [] [Text ''2016-03-04'']]"

definition record_without_identifier :: node where
  "record_without_identifier = pex_record [Element ''date'' [] [Text ''2016-03-04'']]"

definition record_with_empty_creator :: node where
  "record_with_empty_creator = pex_record [empty_creator]"

definition lattice_record :: node where
  "lattice_record =
     pex_record [Element ''identifier'' [] [Text ''PoS(LATTICE 2013)002''],
                 Element ''date'' [] [Text ''2016-03-04'']]"

definition full_creator_xml :: string where
  "full_creator_xml = ''<creator><name>A. Author</name><affiliation>CERN</affiliation></creator>''"

definition empty_creator_xml :: string where
  "empty_creator_xml = ''<creator/>''"

definition sample_html_root :: "string \<Rightarrow> node" where
  "sample_html_root s =
     (if s = paper_page then html_page [pdf_anchor, details_anchor]
      else if s = paper_page_no_pdf then html_page [details_anchor]
      else if s = paper_page_only_pdf then html_page [pdf_anchor]
      else if s = proceedings_page then proceedings_tree
      else if s = full_creator_xml then html_page [full_creator]
      else if s = empty_creator_xml then html_page [empty_creator]
      else Element ''html'' [] [])"

definition pex_record_xml :: "string \<Rightarrow> string" where
  "pex_record_xml inner =
     ''<record><metadata><pex-dc>'' @ inner @ ''</pex-dc></metadata></record>''"

definition good_record_xml :: string where
  "good_record_xml =
     pex_record_xml
       (''<identifier>JHEP01(2016)001</identifier><date>2016-03-04</date>''
        @ ''<language>fr</language>'' @ full_creator_xml)"

definition record_without_parens_xml :: string where
  "record_without_parens_xml =
     pex_record_xml ''<identifier>JHEP01</identifier><date>2016-03-04</date>''"

definition record_without_identifier_xml :: string where
  "record_without_identifier_xml = pex_record_xml ''<date>2016-03-04</date>''"

definition record_with_empty_creator_xml :: string where
  "record_with_empty_creator_xml = pex_record_xml empty_creator_xml"

definition lattice_record_xml :: string where
  "lattice_record_xml =
     pex_record_xml ''<identifier>PoS(LATTICE 2013)002</identifier><date>2016-03-04</date>''"

definition sample_xml_root :: "string \<Rightarrow> node" where
  "sample_xml_root s =
     (if s = good_record_xml then good_record
      else if s = record_without_parens_xml then record_without_parens
      else if s = record_without_identifier_xml then record_without_identifier
      else if s = record_with_empty_creator_xml then record_with_empty_creator
      else if s = lattice_record_xml then lattice_record
      else Element ''record'' [] [])"

definition sample_extract :: "node \<Rightarrow> string" where
  "sample_extract n =
     (if n = good_record then good_record_xml
      else if n = record_without_parens then record_without_parens_xml
      else if n = record_without_identifier then record_without_identifier_xml
      else if n = record_with_empty_creator then record_with_empty_creator_xml
      else if n = lattice_record then lattice_record_xml
      else if n = full_creator then full_creator_xml
      else if n = empty_creator then empty_creator_xml
      else [])"

definition sample_urljoin :: "string \<Rightarrow> string \<Rightarrow> string" where
  "sample_urljoin b u = DEFAULT_BASE_URL @ u"

definition sample_request_url :: "string \<Rightarrow> error + string" where
  "sample_request_url u =
     (if CHR '':'' \<in> set u
      then Inr (concat (map (\<lambda>c. if c = CHR '' '' then ''%20'' else [c]) u))
      else Inl ValueError)"

definition sample_int :: "string \<Rightarrow> error + int" where
  "sample_int s = (if s = ''2016'' then Inr 2016 else Inl ValueError)"

definition sample_licenses :: "string option \<Rightarrow> error + pydict list" where
  "sample_licenses t = Inr []"

definition sample_date :: "string option \<Rightarrow> error + string" where
  "sample_date d = (case d of None \<Rightarrow> Inl (LibraryError ''no date'') | Some x \<Rightarrow> Inr x)"

definition same_tree :: "node \<Rightarrow> node" where
  "same_tree n = n"

definition sample_lib :: lib where
  "sample_lib =
     \<lparr>html_root = sample_html_root, xml_root = sample_xml_root, remove_namespaces = same_tree,
      extract_markup = sample_extract, urljoin = sample_urljoin, py_int = sample_int,
      request_url = sample_request_url,
      get_licenses = sample_licenses, create_valid_date = sample_date\<rparr>"



text \<open>Two networks: one that serves the sample pages, and one that serves a single page.\<close>

definition sample_fetch :: "string \<Rightarrow> string" where
  "sample_fetch u =
     (if u = DEFAULT_BASE_PROCEEDINGS_URL @ ''contrib'' then proceedings_page else paper_page)"

definition fetch_no_pdf :: "string \<Rightarrow> string" where
  "fetch_no_pdf u = paper_page_no_pdf"

text \<open>The conference paper item that the chain of \<open>good_record\<close> produces on the sample network.\<close>

definition sample_paper_item :: ParsedItem where
  "sample_paper_item =
     \<lparr>item_record =
        \<lparr>license = [], date_published = Some ''2016-03-04'', journal_year = Some 2016,
         journal_title = Some ''JHEP01'', journal_volume = Some ''2016'',
         journal_artid = Some ''001'', title = [], subtitle = None, source = [],
         external_system_numbers =
           [\<lparr>institute = ''pos'', ext_value = Some ''JHEP01(2016)001''\<rparr>],
         language = Some ''fr'',
         authors =
           [\<lparr>raw_name = Some ''A. Author'',
             affiliations = Some [\<lparr>aff_value = ''CERN''\<rparr>]\<rparr>],
         collections = [''conferencepaper''],
         urls = [''https://pos.sissa.it/contribution?id=JHEP01(2016)001''],
         fft_field = [\<lparr>path = ''https://pos.sissa.it/999/pdf''\<rparr>]\<rparr>,
      record_format = ''hepcrawl''\<rparr>"

section \<open>Splitting strings\<close>

lemma split_on_not_Nil: "split_on d s \<noteq> []"
  by (induction s) (auto split: list.splits)

lemma split_on_plain: "\<forall>c\<in>set s. \<not> d c \<Longrightarrow> split_on d s = [s]"
  by (induction s) auto

lemma split_on_first:
  "\<forall>c\<in>set t. \<not> d c \<Longrightarrow> d p \<Longrightarrow> split_on d (t @ p # rest) = t # split_on d rest"
  by (induction t) auto

lemma length_split_on: "length (split_on d s) = Suc (length (filter d s))"
  by (induction s) (auto split: list.splits simp: split_on_not_Nil)

lemma split_on_last_piece:
  assumes "\<forall>c\<in>set a. \<not> d c" and "tail = [] \<or> d (hd tail)"
  shows "\<exists>rest. split_on d (a @ tail) = a # rest"
proof (cases tail)
  case Nil
  with assms show ?thesis by (simp add: split_on_plain)
next
  case (Cons x xs)
  with assms show ?thesis by (simp add: split_on_first)
qed

lemma split_three:
  assumes "\<forall>c\<in>set t. \<not> d c" "\<forall>c\<in>set v. \<not> d c" "\<forall>c\<in>set a. \<not> d c"
    and "d p" "d q" "tail = [] \<or> d (hd tail)"
  shows "\<exists>rest. split_on d (t @ p # v @ q # a @ tail) = t # v # a # rest"
proof -
  obtain rest where "split_on d (a @ tail) = a # rest"
    using split_on_last_piece[OF assms(3) assms(6)] by blast
  then show ?thesis
    using assms by (simp add: split_on_first)
qed

section \<open>Journal reference and language\<close>

text \<open>
  C4. Journal decomposition splits the identifier at every parenthesis character and
  takes the first three pieces as journal title, volume and article id. An identifier
  made of three parenthesis-free pieces \<open>t\<close>, \<open>v\<close>, \<open>a\<close> separated by two parenthesis
  characters yields exactly \<open>(t, v, a)\<close>; when more pieces follow they are ignored without
  any check. There is no fallback for fewer pieces: with fewer than two parentheses the
  article id fails with IndexError, with none the volume does. The identifier
  \<open>JHEP01(2016)001\<close> yields \<open>JHEP01\<close>, \<open>2016\<close>, \<open>001\<close>.
\<close>

theorem journal_decomposition:
  "((\<forall>c\<in>set t. \<not> is_paren c) \<and> (\<forall>c\<in>set v. \<not> is_paren c) \<and> (\<forall>c\<in>set a. \<not> is_paren c)
      \<and> is_paren p \<and> is_paren q \<and> (tail = [] \<or> is_paren (hd tail)) \<longrightarrow>
        get_journal_title (Some (t @ p # v @ q # a @ tail)) = Inr t
      \<and> get_journal_volume (Some (t @ p # v @ q # a @ tail)) = Inr v
      \<and> get_journal_artid (Some (t @ p # v @ q # a @ tail)) = Inr a)
   \<and> (length (filter is_paren s) < 2 \<longrightarrow> get_journal_artid (Some s) = Inl IndexError)
   \<and> (length (filter is_paren s) < 1 \<longrightarrow> get_journal_volume (Some s) = Inl IndexError)
   \<and> get_journal_title (Some ''JHEP01(2016)001'') = Inr ''JHEP01''
   \<and> get_journal_volume (Some ''JHEP01(2016)001'') = Inr ''2016''
   \<and> get_journal_artid (Some ''JHEP01(2016)001'') = Inr ''001''"
proof -
  have three: "get_journal_title (Some (t @ p # v @ q # a @ tail)) = Inr t
      \<and> get_journal_volume (Some (t @ p # v @ q # a @ tail)) = Inr v
      \<and> get_journal_artid (Some (t @ p # v @ q # a @ tail)) = Inr a"
    if parts: "\<forall>c\<in>set t. \<not> is_paren c" "\<forall>c\<in>set v. \<not> is_paren c"
      "\<forall>c\<in>set a. \<not> is_paren c" "is_paren p" "is_paren q" "tail = [] \<or> is_paren (hd tail)"
  proof -
    obtain rest where "split_on is_paren (t @ p # v @ q # a @ tail) = t # v # a # rest"
      using split_three[OF parts] by blast
    then show ?thesis
      by (simp add: get_journal_title_def get_journal_volume_def get_journal_artid_def
          re_split_parens_def py_index_def)
  qed
  have fewer2: "get_journal_artid (Some s) = Inl IndexError" if "length (filter is_paren s) < 2"
    using that
    by (simp add: get_journal_artid_def re_split_parens_def py_index_def length_split_on)
  have fewer1: "get_journal_volume (Some s) = Inl IndexError" if "length (filter is_paren s) < 1"
    using that
    by (simp add: get_journal_volume_def re_split_parens_def py_index_def length_split_on)
  have ex: "get_journal_title (Some ''JHEP01(2016)001'') = Inr ''JHEP01''
   \<and> get_journal_volume (Some ''JHEP01(2016)001'') = Inr ''2016''
   \<and> get_journal_artid (Some ''JHEP01(2016)001'') = Inr ''001''"
    by (simp add: get_journal_title_def get_journal_volume_def get_journal_artid_def
          re_split_parens_def py_index_def is_paren_def)
  show ?thesis using three fewer2 fewer1 ex by blast
qed

theorem journal_decomposition_witness:
  "get_journal_title (Some (''PoS'' @ CHR ''('' # ''LATTICE 2013'' @ CHR '')'' # ''001'' @ []))
     = Inr ''PoS''
   \<and> get_journal_volume (Some (''PoS'' @ CHR ''('' # ''LATTICE 2013'' @ CHR '')'' # ''001'' @ []))
     = Inr ''LATTICE 2013''
   \<and> get_journal_artid (Some (''PoS'' @ CHR ''('' # ''LATTICE 2013'' @ CHR '')'' # ''001'' @ []))
     = Inr ''001''
   \<and> get_journal_artid (Some ''JHEP01(2016'') = Inl IndexError
   \<and> get_journal_volume (Some ''JHEP01'') = Inl IndexError"
  using
    journal_decomposition [of "''PoS''" "''LATTICE 2013''" "''001''" "CHR ''(''" "CHR '')''" "[]"
      "''JHEP01(2016''"]
    journal_decomposition [of "''PoS''" "''LATTICE 2013''" "''001''" "CHR ''(''" "CHR '')''" "[]"
      "''JHEP01''"]
  by (simp add: is_paren_def)

text \<open>
  C5. In the conference paper item the language field is absent exactly when the
  language code of the source record is \<open>en\<close>; any other code \<open>c\<close> is carried into the
  field unchanged.
\<close>

theorem language_policy:
  assumes built: "build_conference_paper_item L self xml_rec u p = Inr item"
    and sel: "xml_selector_of L xml_rec = Inr selector"
    and code: "extract_first (xpath_text [''metadata'', ''pex-dc'', ''language''] True selector)
                 = Some c"
  shows "(language (item_record item) = None \<longleftrightarrow> c = ''en'')
       \<and> (c \<noteq> ''en'' \<longrightarrow> language (item_record item) = Some c)"
proof -
  have "language (item_record item) = get_language selector"
    using built sel
    by (auto simp: build_conference_paper_item_def Let_def split: sum.splits prod.splits)
  moreover have "get_language selector = (if c = ''en'' then None else Some c)"
    using code by (simp add: get_language_def)
  ultimately show ?thesis by simp
qed

theorem language_policy_witness:
  "build_conference_paper_item sample_lib sample_spider (Some good_record_xml)
     ''https://pos.sissa.it/contribution?id=JHEP01(2016)001'' ''https://pos.sissa.it/999/pdf''
     = Inr sample_paper_item
   \<and> extract_first (xpath_text [''metadata'', ''pex-dc'', ''language''] True good_record)
       = Some ''fr''
   \<and> language (item_record sample_paper_item) = Some ''fr''"
proof -
  have b: "build_conference_paper_item sample_lib sample_spider (Some good_record_xml)
     ''https://pos.sissa.it/contribution?id=JHEP01(2016)001'' ''https://pos.sissa.it/999/pdf''
     = Inr sample_paper_item"
    by code_simp
  have s: "xml_selector_of sample_lib (Some good_record_xml) = Inr good_record"
    by code_simp
  have c: "extract_first (xpath_text [''metadata'', ''pex-dc'', ''language''] True good_record)
       = Some ''fr''"
    by code_simp
  show ?thesis
    using b c language_policy [OF b s c] by simp
qed

text \<open>A source record without language element gets no language field either.\<close>

lemma language_absent_without_code:
  "extract_first (xpath_text [''metadata'', ''pex-dc'', ''language''] True selector) = None \<Longrightarrow>
   get_language selector = None"
  by (simp add: get_language_def)

section \<open>The text of an anchor\<close>

lemma starts_with_iff: "starts_with s p \<longleftrightarrow> (\<exists>v. s = p @ v)"
  by (induction s p rule: starts_with.induct) auto

lemma contains_iff: "contains s p \<longleftrightarrow> (\<exists>u v. s = u @ p @ v)"
proof (induction s)
  case Nil
  then show ?case by auto
next
  case (Cons c cs)
  show ?case
  proof
    assume "contains (c # cs) p"
    then consider "starts_with (c # cs) p" | "contains cs p" by auto
    then show "\<exists>u v. c # cs = u @ p @ v"
    proof cases
      case 1
      then obtain v where "c # cs = p @ v" by (auto simp: starts_with_iff)
      then have "c # cs = [] @ p @ v" by simp
      then show ?thesis by blast
    next
      case 2
      then obtain u v where "cs = u @ p @ v" using Cons.IH by blast
      then have "c # cs = (c # u) @ p @ v" by simp
      then show ?thesis by blast
    qed
  next
    assume "\<exists>u v. c # cs = u @ p @ v"
    then obtain u v where uv: "c # cs = u @ p @ v" by blast
    show "contains (c # cs) p"
    proof (cases u)
      case Nil
      with uv have "starts_with (c # cs) p" by (auto simp: starts_with_iff)
      then show ?thesis by simp
    next
      case (Cons x xs)
      with uv have "cs = xs @ p @ v" by simp
      then have "contains cs p" using Cons.IH by blast
      then show ?thesis by simp
    qed
  qed
qed

lemma first_text_in_content:
  "List.map_filter text_of cs = t # ts \<Longrightarrow> \<exists>u v. concat (map text_content cs) = u @ t @ v"
proof (induction cs)
  case Nil
  then show ?case by (simp add: List.map_filter_simps)
next
  case (Cons c cs)
  show ?case
  proof (cases c)
    case (Text x)
    then have "text_of c = Some x" by (simp add: text_of_def)
    with Cons.prems have "x = t" by (simp add: List.map_filter_simps)
    with Text have "concat (map text_content (c # cs)) = [] @ t @ concat (map text_content cs)"
      by simp
    then show ?thesis by blast
  next
    case (Element n ats ds)
    then have "text_of c = None" by (simp add: text_of_def)
    with Cons.prems have "List.map_filter text_of cs = t # ts"
      by (simp add: List.map_filter_simps)
    then obtain u v where "concat (map text_content cs) = u @ t @ v"
      using Cons.IH by blast
    then have "concat (map text_content (c # cs)) = (text_content c @ u) @ t @ v" by simp
    then show ?thesis by blast
  qed
qed

lemma text_content_contains_pdf:
  assumes "text_contains_pdf (Element n ats cs)"
  shows "contains (text_content (Element n ats cs)) ''pdf''"
proof (cases "List.map_filter text_of cs")
  case Nil
  with assms show ?thesis by (simp add: text_contains_pdf_def first_text_def)
next
  case (Cons t ts)
  with assms have "contains t ''pdf''" by (simp add: text_contains_pdf_def first_text_def)
  then obtain u v where "t = u @ ''pdf'' @ v" unfolding contains_iff by blast
  moreover obtain u' v' where "concat (map text_content cs) = u' @ t @ v'"
    using first_text_in_content[OF Cons] by blast
  ultimately have "text_content (Element n ats cs) = (u' @ u) @ ''pdf'' @ (v @ v')" by simp
  then show ?thesis unfolding contains_iff by blast
qed

lemma anchors_are_elements: "a \<in> set (anchors root) \<Longrightarrow> \<exists>ats cs. a = Element ''a'' ats cs"
  by (auto simp: anchors_def List.map_filter_def split: node.splits if_splits)

lemma no_pdf_in_text_content:
  assumes "\<forall>a\<in>set (anchors root). \<not> contains (text_content a) ''pdf''"
  shows "\<forall>a\<in>set (anchors root). \<not> text_contains_pdf a"
proof
  fix a assume a: "a \<in> set (anchors root)"
  then obtain ats cs where "a = Element ''a'' ats cs" using anchors_are_elements by blast
  with assms a show "\<not> text_contains_pdf a" using text_content_contains_pdf by blast
qed

section \<open>The callbacks and the chain\<close>

lemma no_pdf_anchor_no_href:
  "\<forall>a\<in>set (anchors root). \<not> text_contains_pdf a \<Longrightarrow> xpath_pdf_href root = []"
  by (simp add: xpath_pdf_href_def filter_empty_conv[THEN iffD2])

lemma only_pdf_anchors_no_href:
  "\<forall>a\<in>set (anchors root). text_contains_pdf a \<Longrightarrow> xpath_not_pdf_href root = []"
  by (simp add: xpath_not_pdf_href_def filter_empty_conv[THEN iffD2])

lemma pdf_url_missing:
  "\<forall>a\<in>set (anchors (html_root L page)). \<not> text_contains_pdf a \<Longrightarrow>
   get_conference_paper_pdf_url L self page
     = Inl (PoSExtractionException ''Unable to get the conference paper pdf url from the html:'')"
  by (simp add: get_conference_paper_pdf_url_def no_pdf_anchor_no_href extract_first_def)


lemma first_request:
  "get_conference_paper_page_request L self record_xml_selector m = Inr q \<longleftrightarrow>
     (\<exists>base u. base_conference_paper_url self = Some base
        \<and> request_url L (base @ py_str (identifier_of record_xml_selector)) = Inr u
        \<and> q = \<lparr>url = u, callback = ParseConferencePaper,
                meta = (case m of None \<Rightarrow> empty_meta | Some d \<Rightarrow> d)
                         \<lparr>xml_record := Some (extract_markup L record_xml_selector)\<rparr>\<rparr>)"
  by (auto simp: get_conference_paper_page_request_def read_attribute_def Let_def
      split: option.splits sum.splits)

lemma first_request_without_attribute:
  "base_conference_paper_url self = None \<Longrightarrow>
   get_conference_paper_page_request L self record_xml_selector m
     = Inl (AttributeError ''base_conference_paper_url'')"
  by (simp add: get_conference_paper_page_request_def read_attribute_def Let_def)

lemma parse_conference_paper_cases:
  "parse_conference_paper L self r =
     (case get_conference_paper_pdf_url L self (body r) of
        Inl e \<Rightarrow> ([], Some e)
      | Inr pdf \<Rightarrow>
          (case build_conference_paper_item L self (xml_record (response_meta r))
                  (response_url r) pdf of
             Inl e \<Rightarrow> ([], Some e)
           | Inr item \<Rightarrow>
               (case get_conference_proceedings_page_request L self
                       ((response_meta r)\<lparr>html_record := Some (body r)\<rparr>) of
                  Inl e \<Rightarrow> ([Item item], Some e)
                | Inr q \<Rightarrow> ([Item item, Req q], None))))"
  by (simp add: parse_conference_paper_def)


lemma paper_events:
  "crawl_paper L self fetch q1 =
     (let r1 = deliver fetch q1
      in Download (url q1) #
         (case get_conference_paper_pdf_url L self (body r1) of
            Inl e \<Rightarrow> [Failed e]
          | Inr pdf \<Rightarrow>
              (case build_conference_paper_item L self (xml_record (response_meta r1))
                      (response_url r1) pdf of
                 Inl e \<Rightarrow> [Failed e]
               | Inr item \<Rightarrow>
                   Scraped item #
                   (case get_conference_proceedings_page_request L self
                           ((response_meta r1)\<lparr>html_record := Some (body r1)\<rparr>) of
                      Inl e \<Rightarrow> [Failed e]
                    | Inr q2 \<Rightarrow>
                        Download (url q2) #
                        events_of (\<lambda>q'. [Download (url q')])
                          (parse_conference_proceedings L self (deliver fetch q2))))))"
  by (simp add: crawl_paper_def Let_def parse_conference_paper_cases events_of_def
      crawl_proceedings_def split: sum.splits)

text \<open>
  On the spider that the constructor builds, no chain gets as far as a download: the
  first request cannot be built.
\<close>

lemma chain_of_constructed_spider:
  "chain L (POSSpider_init file paper_url proceedings_url) fetch record_xml_selector
     = [Failed (AttributeError ''base_conference_paper_url'')]"
  by (simp add: chain_def first_request_without_attribute POSSpider_init_def)

lemma parse_of_constructed_spider:
  "parse_loop L (POSSpider_init file paper_url proceedings_url) (record_xml_selector # rest)
     = ([], Some (AttributeError ''base_conference_paper_url''))"
  by (simp add: first_request_without_attribute POSSpider_init_def)

lemma chain_shape:
  "chain L self fetch record_xml_selector =
     (case get_conference_paper_page_request L self record_xml_selector None of
        Inl e \<Rightarrow> [Failed e]
      | Inr q1 \<Rightarrow> crawl_paper L self fetch q1)"
  by (simp add: chain_def)

section \<open>Missing links\<close>

text \<open>
  C2. When no anchor of the paper page has a text that contains \<open>pdf\<close>, the callback
  \<^verbatim>\<open>parse_conference_paper\<close> ends with the exception of the missing pdf link (the spec's
  PdfLinkNotFoundError) before it yields anything. This holds on every spider: the
  exception is raised before any attribute of the spider is read. A chain that fetched
  such a paper page consists of that download and the failure, and a chain that is
  served such a page emits no record at all, neither the conference paper record nor
  the proceedings record. Both readings of the text of an anchor are covered: what
  XPath's \<open>contains(text(), 'pdf')\<close> looks at, the first child text node, and the whole
  text content.
\<close>

theorem pdf_link_missing:
  assumes no_pdf:
    "(\<forall>a\<in>set (anchors (html_root L page)). \<not> text_contains_pdf a)
     \<or> (\<forall>a\<in>set (anchors (html_root L page)). \<not> contains (text_content a) ''pdf'')"
  shows "(body r = page \<longrightarrow>
            parse_conference_paper L self r
              = ([], Some (PoSExtractionException
                             ''Unable to get the conference paper pdf url from the html:'')))
       \<and> (get_conference_paper_page_request L self record_xml_selector None = Inr q
            \<and> fetch (url q) = page \<longrightarrow>
            chain L self fetch record_xml_selector
              = [Download (url q),
                 Failed (PoSExtractionException
                           ''Unable to get the conference paper pdf url from the html:'')])
       \<and> ((\<forall>u. fetch u = page) \<longrightarrow> scraped (chain L self fetch record_xml_selector) = [])"
proof -
  have xpath: "\<forall>a\<in>set (anchors (html_root L page)). \<not> text_contains_pdf a"
    using no_pdf no_pdf_in_text_content by blast
  note miss = pdf_url_missing[OF xpath, of self]
  have one: "parse_conference_paper L self r
      = ([], Some (PoSExtractionException
                     ''Unable to get the conference paper pdf url from the html:''))"
    if "body r = page"
    using that miss by (simp add: parse_conference_paper_cases)
  have two: "chain L self fetch record_xml_selector
              = [Download (url q),
                 Failed (PoSExtractionException
                           ''Unable to get the conference paper pdf url from the html:'')]"
    if "get_conference_paper_page_request L self record_xml_selector None = Inr q"
      "fetch (url q) = page"
    using that miss by (simp add: chain_shape paper_events Let_def deliver_def)
  have three: "scraped (chain L self fetch record_xml_selector) = []"
    if "\<forall>u. fetch u = page"
    using that miss
    by (simp add: chain_shape paper_events Let_def deliver_def scraped_def
        List.map_filter_simps split: sum.splits)
  show ?thesis using one two three by blast
qed

theorem pdf_link_missing_witness:
  "parse_conference_paper sample_lib constructed_spider
     \<lparr>response_url = ''https://pos.sissa.it/contribution?id=JHEP01(2016)001'',
      body = paper_page_no_pdf,
      response_meta = empty_meta\<lparr>xml_record := Some good_record_xml\<rparr>\<rparr>
     = ([], Some (PoSExtractionException
                    ''Unable to get the conference paper pdf url from the html:''))
   \<and> chain sample_lib sample_spider fetch_no_pdf good_record
       = [Download ''https://pos.sissa.it/contribution?id=JHEP01(2016)001'',
          Failed (PoSExtractionException
                    ''Unable to get the conference paper pdf url from the html:'')]
   \<and> scraped (chain sample_lib constructed_spider fetch_no_pdf good_record) = []"
proof -
  let ?r = "\<lparr>response_url = ''https://pos.sissa.it/contribution?id=JHEP01(2016)001'',
      body = paper_page_no_pdf,
      response_meta = empty_meta\<lparr>xml_record := Some good_record_xml\<rparr>\<rparr>"
  let ?q = "\<lparr>url = ''https://pos.sissa.it/contribution?id=JHEP01(2016)001'',
             callback = ParseConferencePaper,
             meta = empty_meta\<lparr>xml_record := Some good_record_xml\<rparr>\<rparr>"
  have h: "(\<forall>a\<in>set (anchors (html_root sample_lib paper_page_no_pdf)). \<not> text_contains_pdf a)
     \<or> (\<forall>a\<in>set (anchors (html_root sample_lib paper_page_no_pdf)).
           \<not> contains (text_content a) ''pdf'')"
    by code_simp
  have q: "get_conference_paper_page_request sample_lib sample_spider good_record None = Inr ?q"
    by code_simp
  have f: "\<forall>u. fetch_no_pdf u = paper_page_no_pdf"
    by (simp add: fetch_no_pdf_def)
  show ?thesis
    using q f
      pdf_link_missing [OF h, of ?r constructed_spider good_record ?q fetch_no_pdf]
      pdf_link_missing [OF h, of ?r sample_spider good_record ?q fetch_no_pdf]
    by simp
qed

lemma proceedings_id_missing:
  "\<forall>a\<in>set (anchors (html_root L page)). text_contains_pdf a \<Longrightarrow>
   proceedings_internal_id L page = Inl (AttributeError ''split'')"
  by (simp add: proceedings_internal_id_def only_pdf_anchors_no_href extract_first_def
      split_slash_def)

lemma proceedings_request_fails:
  assumes "page = [] \<or> (\<forall>a\<in>set (anchors (html_root L page)). text_contains_pdf a)"
  shows "get_conference_proceedings_page_request L self (m\<lparr>html_record := Some page\<rparr>)
           = Inl (if page = []
                  then PoSExtractionException ''PoS conference paper page was empty, current meta:''
                  else AttributeError ''split'')"
proof (cases "page = []")
  case True
  then show ?thesis by (simp add: get_conference_proceedings_page_request_def)
next
  case False
  with assms have "proceedings_internal_id L page = Inl (AttributeError ''split'')"
    by (simp add: proceedings_id_missing)
  with False show ?thesis
    by (simp add: get_conference_proceedings_page_request_def get_proceedings_page_url_def)
qed

text \<open>
  C7. A paper page whose only anchor is the pdf anchor has no link to the proceedings.
  \<^verbatim>\<open>get_conference_proceedings_page_request\<close> does not report that: the href it looks
  for is \<open>None\<close>, and \<^verbatim>\<open>None.split\<close> raises AttributeError, on the constructed spider
  and on the one with its attributes assigned alike. The sibling
  \<^verbatim>\<open>_get_conference_paper_pdf_url\<close> tests its href and raises PoSExtractionException,
  and so does the branch for the empty page.
\<close>

theorem proceedings_link_crash:
  "get_conference_proceedings_page_request sample_lib constructed_spider
     \<lparr>xml_record = Some good_record_xml, html_record = Some paper_page_only_pdf, pos_id = None\<rparr>
     = Inl (AttributeError ''split'')
   \<and> get_conference_proceedings_page_request sample_lib sample_spider
     \<lparr>xml_record = Some good_record_xml, html_record = Some paper_page_only_pdf, pos_id = None\<rparr>
     = Inl (AttributeError ''split'')
   \<and> get_conference_paper_pdf_url sample_lib constructed_spider paper_page_no_pdf
     = Inl (PoSExtractionException ''Unable to get the conference paper pdf url from the html:'')
   \<and> get_conference_proceedings_page_request sample_lib constructed_spider
     \<lparr>xml_record = Some good_record_xml, html_record = Some [], pos_id = None\<rparr>
     = Inl (PoSExtractionException ''PoS conference paper page was empty, current meta:'')"
  by code_simp








section \<open>The stages of a chain\<close>


lemma build_paper_needs_identifier:
  assumes "xml_selector_of L xml_rec = Inr selector" and "identifier_of selector = None"
  shows "\<exists>e. build_conference_paper_item L self xml_rec u p = Inl e"
proof -
  have "get_journal_title (identifier_of selector) = Inl TypeError"
    using assms(2) by (simp add: get_journal_title_def re_split_parens_def)
  with assms(1) show ?thesis
    by (auto simp: build_conference_paper_item_def Let_def split: sum.splits prod.splits)
qed



lemma chain_without_paper_item:
  assumes q: "get_conference_paper_page_request L self record_xml_selector None = Inr q1"
    and nobuild: "\<And>u p. \<exists>e. build_conference_paper_item L self
                     (xml_record (response_meta (deliver fetch q1))) u p = Inl e"
  shows "\<exists>e. chain L self fetch record_xml_selector = [Download (url q1), Failed e]"
proof (cases "get_conference_paper_pdf_url L self (body (deliver fetch q1))")
  case (Inl e)
  with q show ?thesis by (simp add: chain_shape paper_events Let_def)
next
  case (Inr pdf)
  obtain e where "build_conference_paper_item L self
                    (xml_record (response_meta (deliver fetch q1)))
                    (response_url (deliver fetch q1)) pdf = Inl e"
    using nobuild by blast
  with Inr q show ?thesis by (simp add: chain_shape paper_events Let_def)
qed

text \<open>
  C6, as amended. The code has no check of the identifier. For a source record
  without identifier, a paper-page request that is built has the URL (as scrapy renders
  it) of \<open>base_conference_paper_url\<close> followed by \<open>None\<close>, and it is built whenever the
  spider has the attribute and scrapy accepts that URL; the chain then starts with that
  download. Provided the serialised record has no identifier either, the chain emits no
  record: it ends with a failure, before any download or right after the download of
  the paper page.
\<close>

theorem missing_identifier:
  assumes absent: "identifier_of record_xml_selector = None"
  shows "(\<forall>q. get_conference_paper_page_request L self record_xml_selector m = Inr q \<longrightarrow>
            (\<exists>base. base_conference_paper_url self = Some base
               \<and> request_url L (base @ ''None'') = Inr (url q)))
       \<and> (base_conference_paper_url self = Some base
            \<and> request_url L (base @ ''None'') = Inr u \<longrightarrow>
            (\<exists>rest. chain L self fetch record_xml_selector = Download u # rest))
       \<and> (identifier_of (remove_namespaces L (xml_root L (extract_markup L record_xml_selector)))
            = None \<longrightarrow>
            (\<exists>e. chain L self fetch record_xml_selector = [Failed e])
          \<or> (\<exists>u e. chain L self fetch record_xml_selector = [Download u, Failed e]))"
proof (intro conjI allI impI)
  fix q
  assume "get_conference_paper_page_request L self record_xml_selector m = Inr q"
  then show "\<exists>base. base_conference_paper_url self = Some base
               \<and> request_url L (base @ ''None'') = Inr (url q)"
    using absent by (auto simp: first_request py_str_def)
next
  assume a: "base_conference_paper_url self = Some base
            \<and> request_url L (base @ ''None'') = Inr u"
  then obtain q where q: "get_conference_paper_page_request L self record_xml_selector None = Inr q"
      and u: "url q = u"
    using absent by (auto simp: first_request py_str_def)
  then show "\<exists>rest. chain L self fetch record_xml_selector = Download u # rest"
    by (simp add: chain_shape paper_events Let_def)
next
  assume again: "identifier_of (remove_namespaces L (xml_root L (extract_markup L record_xml_selector)))
                 = None"
  show "(\<exists>e. chain L self fetch record_xml_selector = [Failed e])
          \<or> (\<exists>u e. chain L self fetch record_xml_selector = [Download u, Failed e])"
  proof (cases "get_conference_paper_page_request L self record_xml_selector None")
    case (Inl e)
    then show ?thesis by (simp add: chain_shape)
  next
    case (Inr q1)
    have x: "xml_record (response_meta (deliver fetch q1))
               = Some (extract_markup L record_xml_selector)"
      using Inr by (auto simp: first_request deliver_def)
    have s: "xml_selector_of L (Some (extract_markup L record_xml_selector))
               = Inr (remove_namespaces L (xml_root L (extract_markup L record_xml_selector)))"
      by (simp add: xml_selector_of_def)
    have "\<exists>e. build_conference_paper_item L self
                 (xml_record (response_meta (deliver fetch q1))) u' p' = Inl e" for u' p'
      using build_paper_needs_identifier[OF s again] x by simp
    then have "\<exists>e. chain L self fetch record_xml_selector = [Download (url q1), Failed e]"
      using chain_without_paper_item[OF Inr] by blast
    then show ?thesis by blast
  qed
qed

theorem missing_identifier_witness:
  "(\<exists>rest. chain sample_lib sample_spider sample_fetch record_without_identifier
              = Download ''https://pos.sissa.it/contribution?id=None'' # rest)
   \<and> ((\<exists>e. chain sample_lib sample_spider sample_fetch record_without_identifier = [Failed e])
      \<or> (\<exists>u e. chain sample_lib sample_spider sample_fetch record_without_identifier
                  = [Download u, Failed e]))"
proof -
  have a: "identifier_of record_without_identifier = None"
    by code_simp
  have b: "identifier_of (remove_namespaces sample_lib
             (xml_root sample_lib (extract_markup sample_lib record_without_identifier))) = None"
    by code_simp
  have c: "base_conference_paper_url sample_spider = Some ''https://pos.sissa.it/contribution?id=''
            \<and> request_url sample_lib (''https://pos.sissa.it/contribution?id='' @ ''None'')
                = Inr ''https://pos.sissa.it/contribution?id=None''"
    by code_simp
  note t = missing_identifier [OF a, of sample_lib sample_spider None
      "''https://pos.sissa.it/contribution?id=''" "''https://pos.sissa.it/contribution?id=None''"
      sample_fetch]
  show ?thesis
    using t [THEN conjunct2, THEN conjunct1, THEN mp, OF c]
      t [THEN conjunct2, THEN conjunct2, THEN mp, OF b]
    by (rule conjI)
qed

text \<open>
  C6 as stated fails: on a spider that has its attributes, the paper page of a record
  without identifier is downloaded and the failure comes only afterwards. On the
  constructed spider the chain does fail before any download, but so does the chain of
  a record that has an identifier: the failure is the missing attribute of the spider.
\<close>

theorem missing_identifier_counterexample:
  "identifier_of record_without_identifier = None
   \<and> chain sample_lib sample_spider sample_fetch record_without_identifier
       = [Download ''https://pos.sissa.it/contribution?id=None'', Failed TypeError]
   \<and> chain sample_lib constructed_spider sample_fetch record_without_identifier
       = [Failed (AttributeError ''base_conference_paper_url'')]
   \<and> chain sample_lib constructed_spider sample_fetch good_record
       = [Failed (AttributeError ''base_conference_paper_url'')]"
proof -
  have a: "identifier_of record_without_identifier = None"
    by code_simp
  have b: "chain sample_lib sample_spider sample_fetch record_without_identifier
       = [Download ''https://pos.sissa.it/contribution?id=None'', Failed TypeError]"
    by code_simp
  have c: "chain sample_lib constructed_spider sample_fetch record_without_identifier
       = [Failed (AttributeError ''base_conference_paper_url'')]"
    by code_simp
  have d: "chain sample_lib constructed_spider sample_fetch good_record
       = [Failed (AttributeError ''base_conference_paper_url'')]"
    by code_simp
  show ?thesis
    by (intro conjI a b c d)
qed












section \<open>Authors\<close>

lemma affiliations_loop_raw_name:
  "raw_name (affiliations_loop as d) = raw_name d"
  by (induction as arbitrary: d) (auto simp: add_affiliation_def split: option.splits)

lemma creator_auth_dict_truthy: "dict_truthy (creator_auth_dict L creator)"
  by (simp add: creator_auth_dict_def Let_def dict_truthy_def affiliations_loop_raw_name)

lemma creators_loop_keeps_all:
  "creators_loop L cs found = found @ map (creator_auth_dict L) cs"
  by (induction cs arbitrary: found) (simp_all add: Let_def creator_auth_dict_truthy)

lemma get_authors_keeps_all:
  "get_authors L selector
     = map (creator_auth_dict L) (xpath_elements [''metadata'', ''pex-dc''] ''creator'' selector)"
  by (simp add: get_authors_def creators_loop_keeps_all)

lemma affiliations_loop_value:
  "affiliations_loop as d =
     d\<lparr>affiliations :=
         (case affiliations d of
            None \<Rightarrow> if as = [] then None else Some (map (\<lambda>a. \<lparr>aff_value = a\<rparr>) as)
          | Some xs \<Rightarrow> Some (xs @ map (\<lambda>a. \<lparr>aff_value = a\<rparr>) as))\<rparr>"
  by (induction as arbitrary: d) (auto simp: add_affiliation_def split: option.splits)

lemma creator_auth_dict_value:
  "creator_auth_dict L creator =
     (let author = html_root L (extract_markup L creator);
          affs = xpath_text_below ''affiliation'' author
      in \<lparr>raw_name = Some (case xpath_text_below ''name'' author of [] \<Rightarrow> [] | n # _ \<Rightarrow> n),
          affiliations = (if affs = [] then None
                          else Some (map (\<lambda>a. \<lparr>aff_value = a\<rparr>) affs))\<rparr>)"
  by (simp add: creator_auth_dict_def Let_def affiliations_loop_value empty_auth_dict_def
      get_first_def)

text \<open>
  C8. A creator element without name and without affiliation, for which nothing is
  extracted, is not omitted: \<^verbatim>\<open>raw_name\<close> is always assigned, with the empty string as
  default, so the dictionary of the creator is never empty and the test
  \<^verbatim>\<open>if auth_dict\<close> never fails.
\<close>

theorem empty_creator_is_kept:
  "xpath_text_below ''name'' (html_root sample_lib (extract_markup sample_lib empty_creator)) = []
   \<and> xpath_text_below ''affiliation''
        (html_root sample_lib (extract_markup sample_lib empty_creator)) = []
   \<and> get_authors sample_lib record_with_empty_creator
       = [\<lparr>raw_name = Some [], affiliations = None\<rparr>]"
  by code_simp

end
